theory Spec2Isabelle
  imports Complex_Main
begin

section \<open>Face-detection thumbnail selector: \<open>face_detect_thumbnail.py\<close>\<close>

text \<open>
  The script opens a video, samples one frame every \<open>interval\<close> seconds from
  \<open>start_time\<close> on, runs a face cascade and an eye cascade on each sampled frame, scores
  every face, and writes the first frame with a face that clears the gates as a thumbnail.

  The collaborators of the script (video decoder, colour conversion, the two cascades,
  resize and image writer) are library calls. They are parameters of the model: the
  decoder and the classifiers are functions held in records, and the calls that act on
  the outside world (seek, write, release, print) are recorded, in order, in a trace of
  events. Python floats are modelled as exact rationals; rounding of the floating-point
  operations is not part of the model.
\<close>

subsection \<open>Data\<close>

type_synonym path = string

text \<open>A face or eye rectangle \<open>(x, y, w, h)\<close> as the cascade returns it.\<close>

type_synonym rect = "int \<times> int \<times> int \<times> int"

text \<open>A decoded colour frame: \<open>frame.shape[0]\<close>, \<open>frame.shape[1]\<close> and its content.\<close>

record 'p frame =
  height :: nat
  width :: nat
  pixels :: 'p

text \<open>The result of \<open>cv2.resize(frame, (target_width, target_height))\<close>, kept as the call.\<close>

datatype 'p image = Resize "'p frame" int int

datatype imwrite_flag = IMWRITE_JPEG_QUALITY

text \<open>
  The capture handle \<open>cap\<close>: \<open>cap.isOpened()\<close>, the two properties the script reads,
  and what \<open>cap.set(CAP_PROP_POS_FRAMES, i); cap.read()\<close> delivers (\<open>None\<close> when
  \<open>ret\<close> is false).
\<close>

record 'p video =
  isOpened :: bool
  CAP_PROP_FRAME_COUNT :: rat
  CAP_PROP_FPS :: rat
  read_at :: "int \<Rightarrow> 'p frame option"

text \<open>
  The library as the script sees it. \<open>cuda_device_count\<close> is \<open>None\<close> when the query
  raises; \<open>gpu_cvtColor\<close> is \<open>None\<close> when upload, conversion or download raises.
  \<open>eye_cascade gray r\<close> is the eye detector on the region \<open>gray[y:y+h, x:x+w]\<close>.
\<close>

record ('p, 'g) env =
  cuda_device_count :: "int option"
  VideoCapture :: "path \<Rightarrow> 'p video"
  gpu_cvtColor :: "'p frame \<Rightarrow> 'g option"
  cpu_cvtColor :: "'p frame \<Rightarrow> 'g"
  face_cascade :: "'g \<Rightarrow> rect list"
  eye_cascade :: "'g \<Rightarrow> rect \<Rightarrow> rect list"
  path_exists :: "path \<Rightarrow> bool"

text \<open>
  What the script does to the outside world, in order: the lines it prints (with the
  values they show) and the calls on the capture handle and the image writer.
\<close>

datatype 'p event =
    LogAnalyzing path
  | LogGpuAvailable int
  | LogNoCudaDevices
  | LogCudaNotAvailable
  | LogOpenError path
  | LogVideoInfo int rat rat
  | LogSearching rat rat
  | Seek int
  | LogNoFaces int rat
  | LogTooSmall int rat rat
  | LogFound int rat rat rat rat rat
  | LogScoreTooLow int rat rat
  | LogRejected int rat nat
  | ImWrite path "'p image" "(imwrite_flag \<times> int) list"
  | Release
  | LogSuccess path
  | LogWarnNoFace nat
  | LogUsage
  | LogNotFound path

subsection \<open>Numbers\<close>

text \<open>Python's \<open>int(x)\<close> on a float truncates towards zero.\<close>

definition py_int :: "rat \<Rightarrow> int" where
  "py_int x = (if 0 \<le> x then \<lfloor>x\<rfloor> else \<lceil>x\<rceil>)"

text \<open>
  The cascade returns 32-bit integers, so \<open>w * h\<close> is a 32-bit product and wraps.
\<close>

definition int32_mul :: "int \<Rightarrow> int \<Rightarrow> int" where
  "int32_mul a b = signed_take_bit 31 (a * b)"

definition MIN_FACE_SIZE :: rat where
  "MIN_FACE_SIZE = 9 / 100"

definition MIN_SCORE :: rat where
  "MIN_SCORE = 75"

definition frontal_score :: rat where
  "frontal_score = 50"

definition target_width :: int where
  "target_width = 320"

text \<open>The two gates of the face loop: \<open>area_ratio < MIN_FACE_SIZE\<close> rejects, \<open>total_score >= MIN_SCORE\<close> accepts.\<close>

definition face_too_small :: "rat \<Rightarrow> bool" where
  "face_too_small ratio \<longleftrightarrow> ratio < MIN_FACE_SIZE"

definition score_high_enough :: "rat \<Rightarrow> bool" where
  "score_high_enough score \<longleftrightarrow> score \<ge> MIN_SCORE"

definition frame_area :: "'p frame \<Rightarrow> int" where
  "frame_area f = int (height f) * int (width f)"

definition area_ratio :: "'p frame \<Rightarrow> rect \<Rightarrow> rat" where
  "area_ratio f r = (case r of (x, y, w, h) \<Rightarrow> of_int (int32_mul w h) / of_int (frame_area f))"

definition size_score :: "rat \<Rightarrow> rat" where
  "size_score ratio = min 30 (ratio * 300)"

definition center_dist :: "'p frame \<Rightarrow> rect \<Rightarrow> rat" where
  "center_dist f r = (case r of (x, y, w, h) \<Rightarrow>
     (let face_center_x = of_int x + of_int w / 2;
          face_center_y = of_int y + of_int h / 2;
          frame_center_x = of_nat (width f) / 2;
          frame_center_y = of_nat (height f) / 2;
          center_dist_x = \<bar>face_center_x - frame_center_x\<bar> / of_nat (width f);
          center_dist_y = \<bar>face_center_y - frame_center_y\<bar> / of_nat (height f)
      in (center_dist_x + center_dist_y) / 2))"

definition position_score :: "rat \<Rightarrow> rat" where
  "position_score cd = max 0 (20 * (1 - cd * 2))"

definition total_score :: "rat \<Rightarrow> rat \<Rightarrow> rat" where
  "total_score ratio cd = size_score ratio + position_score cd + frontal_score"

definition target_height :: "'p frame \<Rightarrow> int" where
  "target_height f = py_int (of_nat (height f) * (of_int target_width / of_nat (width f)))"

subsection \<open>The capture handle\<close>

definition total_frames :: "'p video \<Rightarrow> int" where
  "total_frames cap = py_int (CAP_PROP_FRAME_COUNT cap)"

definition fps :: "'p video \<Rightarrow> rat" where
  "fps cap = CAP_PROP_FPS cap"

definition duration :: "'p video \<Rightarrow> rat" where
  "duration cap = (if fps cap > 0 then of_int (total_frames cap) / fps cap else 0)"

text \<open>
  \<open>cap.read()\<close> reports \<open>ret = False\<close> for an empty image, so a frame the loop works on
  has a positive height and width.
\<close>

definition cap_read :: "'p video \<Rightarrow> int \<Rightarrow> 'p frame option" where
  "cap_read cap idx =
     (case read_at cap idx of
        None \<Rightarrow> None
      | Some f \<Rightarrow> if height f = 0 \<or> width f = 0 then None else Some f)"

text \<open>The grayscale working copy: the GPU path when enabled, the CPU path when it raises.\<close>

definition to_gray :: "('p, 'g) env \<Rightarrow> bool \<Rightarrow> 'p frame \<Rightarrow> 'g" where
  "to_gray E use_gpu f =
     (if use_gpu then (case gpu_cvtColor E f of Some g \<Rightarrow> g | None \<Rightarrow> cpu_cvtColor E f)
      else cpu_cvtColor E f)"

subsection \<open>The loop over the faces of one frame\<close>

text \<open>
  \<open>for (x, y, w, h) in faces\<close>. The result is \<open>Inl\<close> when the function has returned
  \<open>True\<close> from inside the loop, \<open>Inr\<close> when the loop ran to its end; both carry the trace.
\<close>

fun check_faces ::
  "('p, 'g) env \<Rightarrow> path \<Rightarrow> 'p frame \<Rightarrow> 'g \<Rightarrow> int \<Rightarrow> rat \<Rightarrow> rect list \<Rightarrow> 'p event list
     \<Rightarrow> 'p event list + 'p event list" where
  "check_faces E output_path f gray frame_idx current_time [] tr = Inr tr"
| "check_faces E output_path f gray frame_idx current_time (r # faces) tr =
     (let eyes = eye_cascade E gray r;
          ratio = area_ratio f r;
          sz = size_score ratio
      in if face_too_small ratio then
           check_faces E output_path f gray frame_idx current_time faces
             (tr @ [LogTooSmall frame_idx current_time ratio])
         else
           let pos = position_score (center_dist f r)
           in if length eyes \<ge> 2 then
                let tot = sz + pos + frontal_score
                in if score_high_enough tot then
                     Inl (tr @ [LogFound frame_idx current_time tot sz pos frontal_score,
                                ImWrite output_path (Resize f target_width (target_height f))
                                  [(IMWRITE_JPEG_QUALITY, 85)],
                                Release,
                                LogSuccess output_path])
                   else
                     check_faces E output_path f gray frame_idx current_time faces
                       (tr @ [LogScoreTooLow frame_idx current_time tot])
              else
                check_faces E output_path f gray frame_idx current_time faces
                  (tr @ [LogRejected frame_idx current_time (length eyes)]))"

subsection \<open>The loop over the sampled timestamps\<close>

text \<open>
  \<open>while current_time < duration\<close>. The loop need not end (nothing in the function
  keeps \<open>interval\<close> positive), so its result is an option: \<open>None\<close> is a run that never
  returns.
\<close>

partial_function (option) scan ::
  "('p, 'g) env \<Rightarrow> 'p video \<Rightarrow> path \<Rightarrow> rat \<Rightarrow> bool \<Rightarrow> rat \<Rightarrow> nat \<Rightarrow> 'p event list
     \<Rightarrow> (bool \<times> 'p event list) option" where
  "scan E cap output_path interval use_gpu current_time frames_checked tr =
     (if current_time < duration cap then
        let frame_idx = py_int (current_time * fps cap)
        in if frame_idx \<ge> total_frames cap then
             Some (False, tr @ [Release, LogWarnNoFace frames_checked])
           else
             case cap_read cap frame_idx of
               None \<Rightarrow>
                 scan E cap output_path interval use_gpu (current_time + interval)
                   frames_checked (tr @ [Seek frame_idx])
             | Some f \<Rightarrow>
                 let gray = to_gray E use_gpu f;
                     faces = face_cascade E gray
                 in if length faces = 0 then
                      scan E cap output_path interval use_gpu (current_time + interval)
                        (frames_checked + 1)
                        (tr @ [Seek frame_idx, LogNoFaces frame_idx current_time])
                    else
                      case check_faces E output_path f gray frame_idx current_time faces
                             (tr @ [Seek frame_idx]) of
                        Inl tr' \<Rightarrow> Some (True, tr')
                      | Inr tr' \<Rightarrow>
                          scan E cap output_path interval use_gpu (current_time + interval)
                            (frames_checked + 1) tr'
      else Some (False, tr @ [Release, LogWarnNoFace frames_checked]))"

declare scan.simps [code]

subsection \<open>The function and the command line\<close>

text \<open>The probe for CUDA at the start: the value of \<open>use_gpu\<close> and the line printed.\<close>

definition cuda_probe :: "('p, 'g) env \<Rightarrow> bool \<times> 'p event list" where
  "cuda_probe E =
     (case cuda_device_count E of
        Some n \<Rightarrow> if n > 0 then (True, [LogGpuAvailable n]) else (False, [LogNoCudaDevices])
      | None \<Rightarrow> (False, [LogCudaNotAvailable]))"

definition detect_best_face_frame ::
  "('p, 'g) env \<Rightarrow> path \<Rightarrow> path \<Rightarrow> rat \<Rightarrow> rat \<Rightarrow> 'p event list
     \<Rightarrow> (bool \<times> 'p event list) option" where
  "detect_best_face_frame E video_path output_path start_time interval tr =
     (let use_gpu = fst (cuda_probe E);
          tr1 = tr @ [LogAnalyzing video_path] @ snd (cuda_probe E);
          cap = VideoCapture E video_path
      in if \<not> isOpened cap then Some (False, tr1 @ [LogOpenError video_path])
         else
           scan E cap output_path interval use_gpu start_time 0
             (tr1 @ [LogVideoInfo (total_frames cap) (duration cap) (fps cap),
                     LogSearching start_time interval]))"

text \<open>
  The \<open>__main__\<close> block: the exit code and the trace, for the argument vector
  \<open>sys.argv\<close>; the call uses the defaults \<open>start_time = 10\<close> and \<open>interval = 2\<close>.
\<close>

definition main :: "('p, 'g) env \<Rightarrow> string list \<Rightarrow> (int \<times> 'p event list) option" where
  "main E argv =
     (if length argv \<noteq> 3 then Some (1, [LogUsage])
      else
        let video_path = argv ! 1;
            output_path = argv ! 2
        in if \<not> path_exists E video_path then Some (1, [LogNotFound video_path])
           else
             case detect_best_face_frame E video_path output_path 10 2 [] of
               None \<Rightarrow> None
             | Some (success, tr) \<Rightarrow> Some (if success then 0 else 1, tr))"

subsection \<open>Vocabulary for the properties\<close>

text \<open>
  The three conditions a face has to meet: large enough, two eyes found, score at least
  \<open>MIN_SCORE\<close>.
\<close>

definition qualifies :: "('p, 'g) env \<Rightarrow> 'p frame \<Rightarrow> 'g \<Rightarrow> rect \<Rightarrow> bool" where
  "qualifies E f gray r \<longleftrightarrow>
     area_ratio f r \<ge> MIN_FACE_SIZE \<and> length (eye_cascade E gray r) \<ge> 2 \<and>
     total_score (area_ratio f r) (center_dist f r) \<ge> MIN_SCORE"

text \<open>The \<open>k\<close>-th timestamp of the scan and the frame index the loop computes for a timestamp.\<close>

definition sample_time :: "rat \<Rightarrow> rat \<Rightarrow> nat \<Rightarrow> rat" where
  "sample_time start_time interval k = start_time + of_nat k * interval"

definition frame_idx_of :: "'p video \<Rightarrow> rat \<Rightarrow> int" where
  "frame_idx_of cap t = py_int (t * fps cap)"

text \<open>The loop goes on at timestamp \<open>t\<close>: the \<open>while\<close> condition holds and the \<open>break\<close> is not taken.\<close>

definition in_range :: "'p video \<Rightarrow> rat \<Rightarrow> bool" where
  "in_range cap t \<longleftrightarrow> t < duration cap \<and> frame_idx_of cap t < total_frames cap"

text \<open>The first face of a frame, in the order of the detector, that meets the three conditions.\<close>

definition selected_face :: "('p, 'g) env \<Rightarrow> bool \<Rightarrow> 'p frame \<Rightarrow> rect option" where
  "selected_face E use_gpu f =
     find (qualifies E f (to_gray E use_gpu f)) (face_cascade E (to_gray E use_gpu f))"

text \<open>The frame sought at timestamp \<open>t\<close> decodes and has such a face.\<close>

definition frame_qualifies :: "('p, 'g) env \<Rightarrow> bool \<Rightarrow> 'p video \<Rightarrow> rat \<Rightarrow> bool" where
  "frame_qualifies E use_gpu cap t =
     (case cap_read cap (frame_idx_of cap t) of
        None \<Rightarrow> False
      | Some f \<Rightarrow> selected_face E use_gpu f \<noteq> None)"

text \<open>The pass at timestamp \<open>t\<close> ends the scan: the loop is left or a face is selected.\<close>

definition stops :: "('p, 'g) env \<Rightarrow> bool \<Rightarrow> 'p video \<Rightarrow> rat \<Rightarrow> bool" where
  "stops E use_gpu cap t \<longleftrightarrow> \<not> in_range cap t \<or> frame_qualifies E use_gpu cap t"

subsection \<open>The events of a run\<close>

text \<open>The line printed for a face that is passed over.\<close>

definition reject_event ::
  "('p, 'g) env \<Rightarrow> 'p frame \<Rightarrow> 'g \<Rightarrow> int \<Rightarrow> rat \<Rightarrow> rect \<Rightarrow> 'p event" where
  "reject_event E f gray frame_idx t r =
     (if area_ratio f r < MIN_FACE_SIZE then LogTooSmall frame_idx t (area_ratio f r)
      else LogRejected frame_idx t (length (eye_cascade E gray r)))"

text \<open>What happens when face \<open>r\<close> of frame \<open>f\<close> is selected.\<close>

definition found_events :: "path \<Rightarrow> 'p frame \<Rightarrow> int \<Rightarrow> rat \<Rightarrow> rect \<Rightarrow> 'p event list" where
  "found_events output_path f frame_idx t r =
     [LogFound frame_idx t (total_score (area_ratio f r) (center_dist f r))
        (size_score (area_ratio f r)) (position_score (center_dist f r)) frontal_score,
      ImWrite output_path (Resize f 320 (target_height f)) [(IMWRITE_JPEG_QUALITY, 85)],
      Release,
      LogSuccess output_path]"

text \<open>The events of one pass of the loop over a frame without a qualifying face.\<close>

definition sample_events :: "('p, 'g) env \<Rightarrow> bool \<Rightarrow> 'p video \<Rightarrow> rat \<Rightarrow> 'p event list" where
  "sample_events E use_gpu cap t =
     Seek (frame_idx_of cap t) #
     (case cap_read cap (frame_idx_of cap t) of
        None \<Rightarrow> []
      | Some f \<Rightarrow>
          if face_cascade E (to_gray E use_gpu f) = [] then [LogNoFaces (frame_idx_of cap t) t]
          else map (reject_event E f (to_gray E use_gpu f) (frame_idx_of cap t) t)
                 (face_cascade E (to_gray E use_gpu f)))"

text \<open>The events of the pass in which face \<open>r\<close> of frame \<open>f\<close> is selected.\<close>

definition selected_events ::
  "('p, 'g) env \<Rightarrow> bool \<Rightarrow> path \<Rightarrow> 'p frame \<Rightarrow> int \<Rightarrow> rat \<Rightarrow> rect \<Rightarrow> 'p event list" where
  "selected_events E use_gpu output_path f frame_idx t r =
     Seek frame_idx #
     map (reject_event E f (to_gray E use_gpu f) frame_idx t)
       (takeWhile (\<lambda>r. \<not> qualifies E f (to_gray E use_gpu f) r)
          (face_cascade E (to_gray E use_gpu f)))
     @ found_events output_path f frame_idx t r"

text \<open>Whether the frame sought at timestamp \<open>t\<close> counts as checked.\<close>

definition decoded :: "'p video \<Rightarrow> rat \<Rightarrow> nat" where
  "decoded cap t = (case cap_read cap (frame_idx_of cap t) of None \<Rightarrow> 0 | Some f \<Rightarrow> 1)"

text \<open>The events and the count of decoded frames of the first \<open>m\<close> passes.\<close>

definition run_prefix ::
  "('p, 'g) env \<Rightarrow> bool \<Rightarrow> 'p video \<Rightarrow> rat \<Rightarrow> rat \<Rightarrow> nat \<Rightarrow> 'p event list" where
  "run_prefix E use_gpu cap t interval m =
     concat (map (\<lambda>k. sample_events E use_gpu cap (sample_time t interval k)) [0..<m])"

definition checked_upto :: "'p video \<Rightarrow> rat \<Rightarrow> rat \<Rightarrow> nat \<Rightarrow> nat" where
  "checked_upto cap t interval m = (\<Sum>k \<leftarrow> [0..<m]. decoded cap (sample_time t interval k))"

text \<open>The events before the loop, for a video that opened.\<close>

definition header_events :: "('p, 'g) env \<Rightarrow> path \<Rightarrow> rat \<Rightarrow> rat \<Rightarrow> 'p event list" where
  "header_events E video_path start_time interval =
     (let cap = VideoCapture E video_path
      in [LogAnalyzing video_path] @ snd (cuda_probe E) @
         [LogVideoInfo (total_frames cap) (duration cap) (fps cap),
          LogSearching start_time interval])"

subsection \<open>Readers of a trace\<close>

fun is_write :: "'p event \<Rightarrow> bool" where
  "is_write (ImWrite p i q) = True"
| "is_write e = False"

fun is_score_too_low :: "'p event \<Rightarrow> bool" where
  "is_score_too_low (LogScoreTooLow i t s) = True"
| "is_score_too_low e = False"

text \<open>The frame indices sought, in order.\<close>

fun seek_idx :: "'p event \<Rightarrow> int option" where
  "seek_idx (Seek i) = Some i"
| "seek_idx e = None"

definition seeks :: "'p event list \<Rightarrow> int list" where
  "seeks tr = List.map_filter seek_idx tr"



text \<open>The events of a pass over a frame that is not selected.\<close>

fun pass_event :: "'p event \<Rightarrow> bool" where
  "pass_event (Seek i) = True"
| "pass_event (LogNoFaces i t) = True"
| "pass_event (LogTooSmall i t a) = True"
| "pass_event (LogRejected i t n) = True"
| "pass_event e = False"

subsection \<open>Example inputs\<close>

text \<open>
  In the examples a frame carries a number as its content, and the grayscale copy of a
  frame is that number. No CUDA device is present.
\<close>

definition ex_video :: "rat \<Rightarrow> rat \<Rightarrow> (int \<Rightarrow> nat frame option) \<Rightarrow> nat video" where
  "ex_video n_frames rate rd =
     \<lparr>isOpened = True, CAP_PROP_FRAME_COUNT = n_frames, CAP_PROP_FPS = rate, read_at = rd\<rparr>"

definition ex_env ::
  "nat video \<Rightarrow> (nat \<Rightarrow> rect list) \<Rightarrow> (nat \<Rightarrow> rect \<Rightarrow> rect list) \<Rightarrow> (nat, nat) env" where
  "ex_env cap faces eyes =
     \<lparr>cuda_device_count = None, VideoCapture = (\<lambda>p. cap), gpu_cvtColor = (\<lambda>f. None),
      cpu_cvtColor = pixels, face_cascade = faces, eye_cascade = eyes,
      path_exists = (\<lambda>p. True)\<rparr>"

text \<open>Two eye rectangles.\<close>

definition two_eyes :: "rect list" where
  "two_eyes = [(40, 60, 20, 12), (100, 60, 20, 12)]"

text \<open>A 100 x 100 frame with one face of 30 x 30: the area ratio is exactly 9/100.\<close>

definition boundary_frame :: "nat frame" where
  "boundary_frame = \<lparr>height = 100, width = 100, pixels = 0\<rparr>"

definition boundary_env :: "(nat, nat) env" where
  "boundary_env =
     ex_env (ex_video 900 30 (\<lambda>i. Some boundary_frame)) (\<lambda>g. [(35, 35, 30, 30)]) (\<lambda>g r. two_eyes)"

text \<open>A video that reports 0 frames per second.\<close>

definition zero_fps_env :: "(nat, nat) env" where
  "zero_fps_env =
     ex_env (ex_video 900 0 (\<lambda>i. Some boundary_frame)) (\<lambda>g. [(35, 35, 30, 30)]) (\<lambda>g r. two_eyes)"

text \<open>A video that cannot be opened.\<close>

definition unopened_env :: "(nat, nat) env" where
  "unopened_env =
     ex_env \<lparr>isOpened = False, CAP_PROP_FRAME_COUNT = 0, CAP_PROP_FPS = 0, read_at = (\<lambda>i. None)\<rparr>
       (\<lambda>g. []) (\<lambda>g r. [])"

text \<open>A 30 second video at 30 frames per second in which no frame shows a face.\<close>

definition plain_frame :: "nat frame" where
  "plain_frame = \<lparr>height = 1080, width = 1920, pixels = 1\<rparr>"

definition no_face_env :: "(nat, nat) env" where
  "no_face_env = ex_env (ex_video 900 30 (\<lambda>i. Some plain_frame)) (\<lambda>g. []) (\<lambda>g r. [])"






section \<open>Properties of the model\<close>

subsection \<open>Scores\<close>

lemma size_score_ge: "MIN_FACE_SIZE \<le> r \<Longrightarrow> 27 \<le> size_score r"
  by (simp add: MIN_FACE_SIZE_def size_score_def)

lemma position_score_nonneg: "0 \<le> position_score d"
  by (simp add: position_score_def)

lemma total_score_ge:
  assumes "MIN_FACE_SIZE \<le> r"
  shows "77 \<le> total_score r d"
  using size_score_ge [OF assms] position_score_nonneg [of d]
  by (simp add: total_score_def frontal_score_def)

lemma qualifies_iff:
  "qualifies E f gray r \<longleftrightarrow>
     \<not> area_ratio f r < MIN_FACE_SIZE \<and> 2 \<le> length (eye_cascade E gray r)"
  using total_score_ge [of "area_ratio f r" "center_dist f r"]
  by (auto simp: qualifies_def MIN_SCORE_def)


lemma py_int_of_int: "py_int (of_int z) = z"
  by (simp add: py_int_def)

lemma floor_rat_numeral: "\<lfloor>(numeral a / numeral b :: rat)\<rfloor> = numeral a div numeral b"
  by (metis floor_divide_of_int_eq of_int_numeral)

subsection \<open>The face loop\<close>

lemma find_None_set: "(find P xs = None) = (\<forall>x \<in> set xs. \<not> P x)"
  by (auto simp add: find_None_iff)

lemma check_faces_none:
  "\<forall>r \<in> set faces. \<not> qualifies E f gray r \<Longrightarrow>
   check_faces E output_path f gray frame_idx t faces tr =
     Inr (tr @ map (reject_event E f gray frame_idx t) faces)"
proof (induction faces arbitrary: tr)
  case Nil
  show ?case by simp
next
  case (Cons r faces)
  from Cons.prems have nq: "\<not> qualifies E f gray r"
    and rest: "\<forall>r \<in> set faces. \<not> qualifies E f gray r" by simp_all
  show ?case
    using nq Cons.IH [OF rest]
    by (auto simp add: Let_def qualifies_iff reject_event_def face_too_small_def)
qed

lemma check_faces_found:
  "find (qualifies E f gray) faces = Some r \<Longrightarrow>
   check_faces E output_path f gray frame_idx t faces tr =
     Inl (tr @ map (reject_event E f gray frame_idx t)
                 (takeWhile (\<lambda>r. \<not> qualifies E f gray r) faces)
             @ found_events output_path f frame_idx t r)"
proof (induction faces arbitrary: tr)
  case Nil
  then show ?case by simp
next
  case (Cons a faces)
  show ?case
  proof (cases "qualifies E f gray a")
    case True
    with Cons.prems have "a = r" by simp
    with True show ?thesis
      using total_score_ge [of "area_ratio f r" "center_dist f r"]
      by (simp add: Let_def qualifies_iff found_events_def total_score_def MIN_SCORE_def
          target_width_def face_too_small_def score_high_enough_def)
  next
    case False
    with Cons.prems have "find (qualifies E f gray) faces = Some r" by simp
    from Cons.IH [OF this] False show ?thesis
      by (auto simp add: Let_def qualifies_iff reject_event_def face_too_small_def)
  qed
qed

subsection \<open>One pass of the scan, and many\<close>


lemma scan_stop:
  "\<not> in_range cap t \<Longrightarrow>
   scan E cap output_path interval use_gpu t n tr = Some (False, tr @ [Release, LogWarnNoFace n])"
  by (subst scan.simps) (auto simp add: in_range_def frame_idx_of_def Let_def)

lemma scan_step:
  assumes "in_range cap t" and "\<not> frame_qualifies E use_gpu cap t"
  shows "scan E cap output_path interval use_gpu t n tr =
         scan E cap output_path interval use_gpu (t + interval) (n + decoded cap t)
           (tr @ sample_events E use_gpu cap t)"
proof (cases "cap_read cap (frame_idx_of cap t)")
  case None
  with assms(1) show ?thesis
    by (subst scan.simps) (simp add: in_range_def frame_idx_of_def sample_events_def decoded_def)
next
  case (Some f)
  with assms(2) have nq: "\<forall>r \<in> set (face_cascade E (to_gray E use_gpu f)).
      \<not> qualifies E f (to_gray E use_gpu f) r"
    by (simp add: frame_qualifies_def selected_face_def find_None_set)
  show ?thesis
    using assms(1) Some check_faces_none [OF nq]
    by (subst scan.simps)
       (simp add: in_range_def frame_idx_of_def sample_events_def decoded_def Let_def)
qed

lemma scan_found:
  assumes "in_range cap t" and "cap_read cap (frame_idx_of cap t) = Some f"
    and "selected_face E use_gpu f = Some r"
  shows "scan E cap output_path interval use_gpu t n tr =
         Some (True, tr @ Seek (frame_idx_of cap t) #
           map (reject_event E f (to_gray E use_gpu f) (frame_idx_of cap t) t)
             (takeWhile (\<lambda>r. \<not> qualifies E f (to_gray E use_gpu f) r)
                (face_cascade E (to_gray E use_gpu f)))
           @ found_events output_path f (frame_idx_of cap t) t r)"
proof -
  from assms(3) have fnd: "find (qualifies E f (to_gray E use_gpu f))
      (face_cascade E (to_gray E use_gpu f)) = Some r"
    by (simp add: selected_face_def)
  then have ne: "face_cascade E (to_gray E use_gpu f) \<noteq> []" by auto
  show ?thesis
    using assms(1,2) ne check_faces_found [OF fnd]
    by (subst scan.simps) (simp add: in_range_def frame_idx_of_def Let_def)
qed

lemma scan_steps:
  assumes "\<forall>k < m. in_range cap (sample_time t interval k) \<and>
                   \<not> frame_qualifies E use_gpu cap (sample_time t interval k)"
  shows "scan E cap output_path interval use_gpu t n tr =
         scan E cap output_path interval use_gpu (sample_time t interval m)
           (n + checked_upto cap t interval m) (tr @ run_prefix E use_gpu cap t interval m)"
  using assms
proof (induction m)
  case 0
  show ?case by (simp add: sample_time_def run_prefix_def checked_upto_def)
next
  case (Suc m)
  have step: "sample_time t interval m + interval = sample_time t interval (Suc m)"
    by (simp add: sample_time_def algebra_simps)
  from Suc.prems have here: "in_range cap (sample_time t interval m)"
    "\<not> frame_qualifies E use_gpu cap (sample_time t interval m)" by simp_all
  from Suc.prems have "\<forall>k < m. in_range cap (sample_time t interval k) \<and>
                   \<not> frame_qualifies E use_gpu cap (sample_time t interval k)" by simp
  from Suc.IH [OF this] show ?case
    by (simp add: scan_step [OF here] step add.assoc run_prefix_def checked_upto_def)
qed

lemma scan_exhausted:
  assumes "\<forall>k < m. in_range cap (sample_time t interval k) \<and>
                   \<not> frame_qualifies E use_gpu cap (sample_time t interval k)"
    and "\<not> in_range cap (sample_time t interval m)"
  shows "scan E cap output_path interval use_gpu t n tr =
         Some (False, tr @ run_prefix E use_gpu cap t interval m @
                 [Release, LogWarnNoFace (n + checked_upto cap t interval m)])"
  by (simp add: scan_steps [OF assms(1)] scan_stop [OF assms(2)])

lemma scan_selected:
  assumes "\<forall>k < m. in_range cap (sample_time t interval k) \<and>
                   \<not> frame_qualifies E use_gpu cap (sample_time t interval k)"
    and "in_range cap (sample_time t interval m)"
    and "cap_read cap (frame_idx_of cap (sample_time t interval m)) = Some f"
    and "selected_face E use_gpu f = Some r"
  shows "scan E cap output_path interval use_gpu t n tr =
         Some (True, tr @ run_prefix E use_gpu cap t interval m @
           Seek (frame_idx_of cap (sample_time t interval m)) #
           map (reject_event E f (to_gray E use_gpu f)
                  (frame_idx_of cap (sample_time t interval m)) (sample_time t interval m))
             (takeWhile (\<lambda>r. \<not> qualifies E f (to_gray E use_gpu f) r)
                (face_cascade E (to_gray E use_gpu f)))
           @ found_events output_path f (frame_idx_of cap (sample_time t interval m))
               (sample_time t interval m) r)"
  by (simp add: scan_steps [OF assms(1)] scan_found [OF assms(2,3,4)])

subsection \<open>When the scan returns\<close>

lemma scan_Some_stops:
  assumes "scan E0 cap0 output_path0 interval0 use_gpu0 t0 n0 tr0 = Some y0"
  shows "\<exists>m. stops E0 use_gpu0 cap0 (sample_time t0 interval0 m)"
proof (rule scan.raw_induct
    [where P = "\<lambda>E cap output_path interval use_gpu t n tr y.
                  \<exists>m. stops E use_gpu cap (sample_time t interval m)", OF _ assms])
  fix scan :: "('a, 'b) env \<Rightarrow> 'a video \<Rightarrow> path \<Rightarrow> rat \<Rightarrow> bool \<Rightarrow> rat \<Rightarrow> nat \<Rightarrow> 'a event list
     \<Rightarrow> (bool \<times> 'a event list) option"
  fix E cap output_path interval use_gpu t n tr y
  assume IH: "\<And>E cap output_path interval use_gpu t n tr y.
     scan E cap output_path interval use_gpu t n tr = Some y \<Longrightarrow>
     \<exists>m. stops E use_gpu cap (sample_time t interval m)"
  assume body: "(if t < duration cap
      then let frame_idx = py_int (t * fps cap)
           in if total_frames cap \<le> frame_idx
              then Some (False, tr @ [Release, LogWarnNoFace n])
              else case cap_read cap frame_idx of
                   None \<Rightarrow>
                     scan E cap output_path interval use_gpu (t + interval) n (tr @ [Seek frame_idx])
                   | Some f \<Rightarrow>
                       let gray = to_gray E use_gpu f;
                           faces = face_cascade E gray
                       in if length faces = 0
                          then scan E cap output_path interval use_gpu (t + interval) (n + 1)
                                (tr @ [Seek frame_idx, LogNoFaces frame_idx t])
                          else case check_faces E output_path f gray frame_idx t faces
                                     (tr @ [Seek frame_idx]) of
                               Inl tr' \<Rightarrow> Some (True, tr')
                               | Inr tr' \<Rightarrow>
                                   scan E cap output_path interval use_gpu (t + interval) (n + 1) tr'
      else Some (False, tr @ [Release, LogWarnNoFace n])) = Some y"
  show "\<exists>m. stops E use_gpu cap (sample_time t interval m)"
  proof (cases "stops E use_gpu cap t")
    case True
    then have "stops E use_gpu cap (sample_time t interval 0)" by (simp add: sample_time_def)
    then show ?thesis ..
  next
    case False
    then have ir: "in_range cap t" and nq: "\<not> frame_qualifies E use_gpu cap t"
      by (simp_all add: stops_def)
    have "\<exists>n' tr'. scan E cap output_path interval use_gpu (t + interval) n' tr' = Some y"
    proof (cases "cap_read cap (frame_idx_of cap t)")
      case None
      with ir body show ?thesis
        by (auto simp add: in_range_def frame_idx_of_def)
    next
      case (Some f)
      with nq have "\<forall>r \<in> set (face_cascade E (to_gray E use_gpu f)).
          \<not> qualifies E f (to_gray E use_gpu f) r"
        by (simp add: frame_qualifies_def selected_face_def find_None_set)
      from check_faces_none [OF this] ir Some body show ?thesis
        by (auto simp add: in_range_def frame_idx_of_def Let_def split: if_splits)
    qed
    then obtain n' tr' where "scan E cap output_path interval use_gpu (t + interval) n' tr' = Some y"
      by blast
    from IH [OF this] obtain m where "stops E use_gpu cap (sample_time (t + interval) interval m)"
      by blast
    moreover have "sample_time (t + interval) interval m = sample_time t interval (Suc m)"
      by (simp add: sample_time_def algebra_simps)
    ultimately show ?thesis by metis
  qed
qed

lemma not_stops_iff:
  "(\<forall>k < m. \<not> stops E use_gpu cap (sample_time t interval k)) \<longleftrightarrow>
   (\<forall>k < m. in_range cap (sample_time t interval k) \<and>
             \<not> frame_qualifies E use_gpu cap (sample_time t interval k))"
  by (simp add: stops_def)

lemma scan_at_first_stop:
  assumes first: "\<forall>k < m. \<not> stops E use_gpu cap (sample_time t interval k)"
    and stop: "stops E use_gpu cap (sample_time t interval m)"
  shows "(\<not> in_range cap (sample_time t interval m) \<and>
          scan E cap output_path interval use_gpu t n tr =
            Some (False, tr @ run_prefix E use_gpu cap t interval m @
                   [Release, LogWarnNoFace (n + checked_upto cap t interval m)])) \<or>
         (in_range cap (sample_time t interval m) \<and>
          (\<exists>f r. cap_read cap (frame_idx_of cap (sample_time t interval m)) = Some f \<and>
                 selected_face E use_gpu f = Some r \<and>
                 scan E cap output_path interval use_gpu t n tr =
                   Some (True, tr @ run_prefix E use_gpu cap t interval m @
                     selected_events E use_gpu output_path f
                       (frame_idx_of cap (sample_time t interval m)) (sample_time t interval m) r)))"
proof (cases "in_range cap (sample_time t interval m)")
  case False
  from scan_exhausted [OF first [unfolded not_stops_iff] False] False show ?thesis by simp
next
  case True
  with stop have "frame_qualifies E use_gpu cap (sample_time t interval m)"
    by (simp add: stops_def)
  then obtain f r where f: "cap_read cap (frame_idx_of cap (sample_time t interval m)) = Some f"
    and r: "selected_face E use_gpu f = Some r"
    by (auto simp add: frame_qualifies_def split: option.splits)
  have "scan E cap output_path interval use_gpu t n tr =
          Some (True, tr @ run_prefix E use_gpu cap t interval m @
            selected_events E use_gpu output_path f
              (frame_idx_of cap (sample_time t interval m)) (sample_time t interval m) r)"
    unfolding selected_events_def
    by (rule scan_selected [OF first [unfolded not_stops_iff] True f r])
  with True f r show ?thesis by blast
qed

lemma first_stop:
  assumes "\<exists>m. stops E use_gpu cap (sample_time t interval m)"
  shows "\<exists>m. stops E use_gpu cap (sample_time t interval m) \<and>
             (\<forall>k < m. \<not> stops E use_gpu cap (sample_time t interval k))"
  using assms by (subst (asm) exists_least_iff) blast

lemma scan_defined_iff:
  "(\<exists>y. scan E cap output_path interval use_gpu t n tr = Some y) \<longleftrightarrow>
   (\<exists>m. stops E use_gpu cap (sample_time t interval m))"
proof
  assume "\<exists>y. scan E cap output_path interval use_gpu t n tr = Some y"
  then show "\<exists>m. stops E use_gpu cap (sample_time t interval m)"
    by (blast dest: scan_Some_stops)
next
  assume "\<exists>m. stops E use_gpu cap (sample_time t interval m)"
  from first_stop [OF this] obtain m where
    "stops E use_gpu cap (sample_time t interval m)"
    "\<forall>k < m. \<not> stops E use_gpu cap (sample_time t interval k)" by blast
  from scan_at_first_stop [OF this(2,1), of output_path n tr]
  show "\<exists>y. scan E cap output_path interval use_gpu t n tr = Some y" by blast
qed

lemma exhaust_exists:
  assumes "0 < interval"
  shows "\<exists>m. \<not> in_range cap (sample_time t interval m)"
proof -
  define m where "m = nat \<lceil>(duration cap - t) / interval\<rceil>"
  have "(duration cap - t) / interval \<le> of_int \<lceil>(duration cap - t) / interval\<rceil>"
    by (rule le_of_int_ceiling)
  also have "\<dots> \<le> of_nat m" unfolding m_def
    by (metis of_int_of_nat_eq of_int_le_iff nat_le_iff order_refl)
  finally have "duration cap - t \<le> of_nat m * interval"
    using assms by (simp add: pos_divide_le_eq)
  then have "\<not> sample_time t interval m < duration cap"
    by (simp add: sample_time_def)
  then show ?thesis by (auto simp add: in_range_def)
qed


lemma scan_terminates:
  assumes "0 < interval"
  shows "\<exists>y. scan E cap output_path interval use_gpu t n tr = Some y"
proof -
  from exhaust_exists [OF assms] obtain m where "\<not> in_range cap (sample_time t interval m)"
    by blast
  then have "\<exists>m. stops E use_gpu cap (sample_time t interval m)"
    by (auto simp add: stops_def)
  then show ?thesis by (rule scan_defined_iff [THEN iffD2])
qed

text \<open>
  Nothing in the function keeps the interval positive. With an interval of 0 the scan
  stays at its first timestamp: if the loop goes on there and the frame has no
  qualifying face, the function never returns.
\<close>

lemma scan_zero_interval_diverges:
  assumes "in_range cap t" and "\<not> frame_qualifies E use_gpu cap t"
  shows "scan E cap output_path 0 use_gpu t n tr = None"
proof -
  from assms have "\<not> (\<exists>m. stops E use_gpu cap (sample_time t 0 m))"
    by (simp add: stops_def sample_time_def)
  then have "\<not> (\<exists>y. scan E cap output_path 0 use_gpu t n tr = Some y)"
    using scan_defined_iff [of E cap output_path 0 use_gpu t n tr] by blast
  then show ?thesis by (cases "scan E cap output_path 0 use_gpu t n tr") blast+
qed


subsection \<open>The function as a whole\<close>

lemma detect_not_opened:
  "\<not> isOpened (VideoCapture E video_path) \<Longrightarrow>
   detect_best_face_frame E video_path output_path start_time interval tr =
     Some (False, tr @ [LogAnalyzing video_path] @ snd (cuda_probe E) @ [LogOpenError video_path])"
  by (simp add: detect_best_face_frame_def)

lemma detect_opened:
  "isOpened (VideoCapture E video_path) \<Longrightarrow>
   detect_best_face_frame E video_path output_path start_time interval tr =
     scan E (VideoCapture E video_path) output_path interval (fst (cuda_probe E)) start_time 0
       (tr @ header_events E video_path start_time interval)"
  by (simp add: detect_best_face_frame_def header_events_def Let_def)

lemma detect_Some_cases:
  assumes "detect_best_face_frame E video_path output_path start_time interval tr = Some (b, tr')"
  shows "(\<not> isOpened (VideoCapture E video_path) \<and> \<not> b \<and>
          tr' = tr @ [LogAnalyzing video_path] @ snd (cuda_probe E) @ [LogOpenError video_path]) \<or>
         (isOpened (VideoCapture E video_path) \<and> \<not> b \<and>
          (\<exists>m. tr' = tr @ header_events E video_path start_time interval @
                   run_prefix E (fst (cuda_probe E)) (VideoCapture E video_path) start_time interval m @
                   [Release, LogWarnNoFace (checked_upto (VideoCapture E video_path) start_time interval m)])) \<or>
         (isOpened (VideoCapture E video_path) \<and> b \<and>
          (\<exists>m f r. cap_read (VideoCapture E video_path)
                      (frame_idx_of (VideoCapture E video_path) (sample_time start_time interval m)) = Some f \<and>
                   selected_face E (fst (cuda_probe E)) f = Some r \<and>
                   tr' = tr @ header_events E video_path start_time interval @
                   run_prefix E (fst (cuda_probe E)) (VideoCapture E video_path) start_time interval m @
                   selected_events E (fst (cuda_probe E)) output_path f
                     (frame_idx_of (VideoCapture E video_path) (sample_time start_time interval m))
                     (sample_time start_time interval m) r))"
proof (cases "isOpened (VideoCapture E video_path)")
  case False
  with assms detect_not_opened [OF False, of output_path start_time interval tr]
  show ?thesis by simp
next
  case True
  let ?cap = "VideoCapture E video_path" and ?g = "fst (cuda_probe E)"
  let ?tr0 = "tr @ header_events E video_path start_time interval"
  from assms have sc: "scan E ?cap output_path interval ?g start_time 0 ?tr0 = Some (b, tr')"
    by (simp add: detect_opened [OF True])
  from scan_Some_stops [OF sc] first_stop obtain m where
    m: "stops E ?g ?cap (sample_time start_time interval m)"
       "\<forall>k < m. \<not> stops E ?g ?cap (sample_time start_time interval k)" by blast
  from scan_at_first_stop [OF m(2,1), of output_path 0 ?tr0]
  show ?thesis
  proof (elim disjE conjE exE)
    assume "scan E ?cap output_path interval ?g start_time 0 ?tr0 =
      Some (False, ?tr0 @ run_prefix E ?g ?cap start_time interval m @
        [Release, LogWarnNoFace (0 + checked_upto ?cap start_time interval m)])"
    with sc True show ?thesis by auto
  next
    fix f r
    assume f: "cap_read ?cap (frame_idx_of ?cap (sample_time start_time interval m)) = Some f"
      and r: "selected_face E ?g f = Some r"
      and "scan E ?cap output_path interval ?g start_time 0 ?tr0 =
        Some (True, ?tr0 @ run_prefix E ?g ?cap start_time interval m @
          selected_events E ?g output_path f
            (frame_idx_of ?cap (sample_time start_time interval m))
            (sample_time start_time interval m) r)"
    with sc have "b" and "tr' = tr @ header_events E video_path start_time interval @
          run_prefix E ?g ?cap start_time interval m @
          selected_events E ?g output_path f
            (frame_idx_of ?cap (sample_time start_time interval m))
            (sample_time start_time interval m) r" by simp_all
    with True f r show ?thesis by blast
  qed
qed



subsection \<open>What a trace can hold\<close>

lemma pass_event_reject: "pass_event (reject_event E f gray i t r)"
  by (simp add: reject_event_def)

lemma pass_event_sample: "list_all pass_event (sample_events E use_gpu cap t)"
  by (auto simp add: sample_events_def list_all_iff pass_event_reject split: option.split)

lemma pass_event_run_prefix: "list_all pass_event (run_prefix E use_gpu cap t interval m)"
  using pass_event_sample [of E use_gpu cap]
  by (auto simp add: run_prefix_def list_all_iff)

lemma pass_not_score_too_low: "list_all pass_event xs \<Longrightarrow> \<not> list_ex is_score_too_low xs"
  by (induction xs) (auto elim: pass_event.elims)

lemma pass_no_release: "list_all pass_event xs \<Longrightarrow> count_list xs Release = 0"
  by (induction xs) auto


lemma count_list_append: "count_list (xs @ ys) a = count_list xs a + count_list ys a"
  by (induction xs) auto

lemma probe_no_release: "count_list (snd (cuda_probe E)) Release = 0"
  by (simp add: cuda_probe_def split: option.split)

lemma probe_not_write: "\<not> list_ex is_write (snd (cuda_probe E))"
  by (simp add: cuda_probe_def split: option.split)

lemma header_no_release: "count_list (header_events E video_path start_time interval) Release = 0"
  by (simp add: header_events_def Let_def count_list_append probe_no_release)

lemma header_not_write: "\<not> list_ex is_write (header_events E video_path start_time interval)"
  by (simp add: header_events_def Let_def probe_not_write)

lemma selected_events_not_score_too_low:
  "\<not> list_ex is_score_too_low (selected_events E g output_path f i t r)"
  using pass_not_score_too_low [of "map (reject_event E f (to_gray E g f) i t)
        (takeWhile (\<lambda>r. \<not> qualifies E f (to_gray E g f) r) (face_cascade E (to_gray E g f)))"]
  by (simp add: selected_events_def found_events_def list_all_iff pass_event_reject)

lemma selected_one_release:
  "count_list (selected_events E g output_path f i t r) Release = 1"
  using pass_no_release [of "map (reject_event E f (to_gray E g f) i t)
        (takeWhile (\<lambda>r. \<not> qualifies E f (to_gray E g f) r) (face_cascade E (to_gray E g f)))"]
  by (simp add: selected_events_def found_events_def list_all_iff pass_event_reject
      count_list_append)


lemma seeks_append: "seeks (xs @ ys) = seeks xs @ seeks ys"
  by (simp add: seeks_def List.map_filter_def)

lemma seeks_probe: "seeks (snd (cuda_probe E)) = []"
  by (simp add: seeks_def List.map_filter_def cuda_probe_def split: option.split)

lemma seeks_header: "seeks (header_events E video_path start_time interval) = []"
  using seeks_probe [of E]
  by (simp add: header_events_def Let_def seeks_append) (simp add: seeks_def List.map_filter_def)

lemma seeks_rejects: "seeks (map (reject_event E f gray i t) faces) = []"
  by (induction faces) (simp_all add: seeks_def List.map_filter_def reject_event_def)

lemma seeks_sample: "seeks (sample_events E use_gpu cap t) = [frame_idx_of cap t]"
proof -
  have "seeks (sample_events E use_gpu cap t) =
        seeks ([Seek (frame_idx_of cap t)] @ tl (sample_events E use_gpu cap t))"
    by (simp add: sample_events_def)
  also have "\<dots> = [frame_idx_of cap t] @ seeks (tl (sample_events E use_gpu cap t))"
    unfolding seeks_append by (simp add: seeks_def List.map_filter_def)
  also have "seeks (tl (sample_events E use_gpu cap t)) = []"
    using seeks_rejects [of E _ "to_gray E use_gpu _" "frame_idx_of cap t" t]
    by (auto simp add: sample_events_def split: option.split)
       (simp add: seeks_def List.map_filter_def)+
  finally show ?thesis by simp
qed

lemma seeks_run_prefix:
  "seeks (run_prefix E use_gpu cap t interval m) =
   map (\<lambda>k. frame_idx_of cap (sample_time t interval k)) [0..<m]"
  by (induction m) (simp_all add: run_prefix_def seeks_append seeks_sample, simp add: seeks_def List.map_filter_def)

lemma checked_upto_le: "checked_upto cap t interval m \<le> m"
  by (induction m) (simp_all add: checked_upto_def decoded_def split: option.split)

lemma checked_upto_all:
  "\<forall>k < m. cap_read cap (frame_idx_of cap (sample_time t interval k)) \<noteq> None \<Longrightarrow>
   checked_upto cap t interval m = m"
  by (induction m) (auto simp add: checked_upto_def decoded_def split: option.split)

subsection \<open>The example runs\<close>

lemmas run_defs = floor_rat_numeral
  detect_best_face_frame_def ex_env_def ex_video_def cuda_probe_def
  duration_def fps_def total_frames_def py_int_def cap_read_def to_gray_def area_ratio_def
  int32_mul_def frame_area_def size_score_def MIN_FACE_SIZE_def center_dist_def
  position_score_def frontal_score_def MIN_SCORE_def face_too_small_def
  score_high_enough_def total_score_def target_width_def target_height_def two_eyes_def


lemma no_face_run:
  "detect_best_face_frame no_face_env ''in.mp4'' ''out.jpg'' 10 2 [] =
     Some (False,
       [LogAnalyzing ''in.mp4'', LogCudaNotAvailable, LogVideoInfo 900 30 30, LogSearching 10 2,
        Seek 300, LogNoFaces 300 10, Seek 360, LogNoFaces 360 12, Seek 420, LogNoFaces 420 14,
        Seek 480, LogNoFaces 480 16, Seek 540, LogNoFaces 540 18, Seek 600, LogNoFaces 600 20,
        Seek 660, LogNoFaces 660 22, Seek 720, LogNoFaces 720 24, Seek 780, LogNoFaces 780 26,
        Seek 840, LogNoFaces 840 28, Release, LogWarnNoFace 10])"
  by (simp add: no_face_env_def plain_frame_def run_defs scan.simps)



section \<open>The claims\<close>






text \<open>
  C3: a face that passes the size gate and has two eyes scores at least 77, above
  \<open>MIN_SCORE\<close>; the score gate lets every face through that reaches it, and no run prints
  the "score too low" line.
\<close>

theorem score_gate_never_rejects:
  "(MIN_FACE_SIZE \<le> area_ratio f r \<longrightarrow>
      77 \<le> total_score (area_ratio f r) (center_dist f r) \<and>
      MIN_SCORE < total_score (area_ratio f r) (center_dist f r)) \<and>
   (\<not> face_too_small ratio \<longrightarrow>
      score_high_enough (size_score ratio + position_score cd + frontal_score)) \<and>
   (detect_best_face_frame E video_path output_path start_time interval [] = Some (b, tr) \<longrightarrow>
      \<not> list_ex is_score_too_low tr) \<and>
   total_score ratio cd = min 30 (ratio * 300) + max 0 (20 * (1 - cd * 2)) + 50 \<and>
   MIN_FACE_SIZE = 9 / 100 \<and> MIN_SCORE = 75"
proof (intro conjI impI)
  show "total_score ratio cd = min 30 (ratio * 300) + max 0 (20 * (1 - cd * 2)) + 50"
    by (simp add: total_score_def size_score_def position_score_def frontal_score_def)
  show "MIN_FACE_SIZE = 9 / 100" by (simp add: MIN_FACE_SIZE_def)
  show "MIN_SCORE = 75" by (simp add: MIN_SCORE_def)
next
  assume "MIN_FACE_SIZE \<le> area_ratio f r"
  from total_score_ge [OF this, of "center_dist f r"]
  show "77 \<le> total_score (area_ratio f r) (center_dist f r)"
    and "MIN_SCORE < total_score (area_ratio f r) (center_dist f r)"
    by (simp_all add: MIN_SCORE_def)
next
  assume "\<not> face_too_small ratio"
  then have "MIN_FACE_SIZE \<le> ratio" by (simp add: face_too_small_def)
  from total_score_ge [OF this, of cd]
  show "score_high_enough (size_score ratio + position_score cd + frontal_score)"
    by (simp add: score_high_enough_def total_score_def MIN_SCORE_def)
next
  assume run: "detect_best_face_frame E video_path output_path start_time interval [] = Some (b, tr)"
  have probe: "\<not> list_ex is_score_too_low (snd (cuda_probe E))"
    by (simp add: cuda_probe_def split: option.split)
  from detect_Some_cases [OF run] show "\<not> list_ex is_score_too_low tr"
    using probe selected_events_not_score_too_low [of E _ output_path]
      pass_not_score_too_low [OF pass_event_run_prefix, of E _ "VideoCapture E video_path"]
    by (auto simp add: header_events_def Let_def)
qed

theorem score_gate_never_rejects_witness:
  "MIN_FACE_SIZE \<le> area_ratio boundary_frame (35, 35, 30, 30) \<and>
   total_score (area_ratio boundary_frame (35, 35, 30, 30))
     (center_dist boundary_frame (35, 35, 30, 30)) = 97 \<and>
   \<not> face_too_small (9/100) \<and> score_high_enough (size_score (9/100) + position_score 0 + frontal_score) \<and>
   detect_best_face_frame boundary_env ''in.mp4'' ''out.jpg'' 10 2 [] =
     Some (True,
       [LogAnalyzing ''in.mp4'', LogCudaNotAvailable, LogVideoInfo 900 30 30, LogSearching 10 2,
        Seek 300, LogFound 300 10 97 27 20 50,
        ImWrite ''out.jpg'' (Resize boundary_frame 320 320) [(IMWRITE_JPEG_QUALITY, 85)],
        Release, LogSuccess ''out.jpg'']) \<and>
   \<not> list_ex is_score_too_low
       [LogAnalyzing ''in.mp4'', LogCudaNotAvailable, LogVideoInfo 900 30 30, LogSearching 10 2,
        Seek 300, LogFound 300 10 97 27 20 50,
        ImWrite ''out.jpg'' (Resize boundary_frame 320 320) [(IMWRITE_JPEG_QUALITY, 85)],
        Release, LogSuccess ''out.jpg'']"
  using score_gate_never_rejects [of boundary_frame "(35, 35, 30, 30)" "9/100" 0 boundary_env
      "''in.mp4''" "''out.jpg''" 10 2 True]
  by (simp add: detect_best_face_frame_def boundary_env_def ex_env_def ex_video_def
      boundary_frame_def two_eyes_def cuda_probe_def scan.simps
      duration_def fps_def total_frames_def py_int_def cap_read_def to_gray_def area_ratio_def
      int32_mul_def frame_area_def size_score_def MIN_FACE_SIZE_def center_dist_def
      position_score_def frontal_score_def MIN_SCORE_def face_too_small_def
      score_high_enough_def total_score_def target_width_def target_height_def)

text \<open>
  C4, amended: on every path that returns after the video opened, success or exhaustion
  of the scan, \<open>release\<close> is called exactly once; when the video cannot be opened the
  function returns \<open>False\<close> and \<open>release\<close> is not called.
\<close>

theorem release_on_exit:
  assumes "detect_best_face_frame E video_path output_path start_time interval [] = Some (b, tr)"
  shows "(isOpened (VideoCapture E video_path) \<longrightarrow> count_list tr Release = 1) \<and>
         (\<not> isOpened (VideoCapture E video_path) \<longrightarrow> \<not> b \<and> count_list tr Release = 0)"
proof -
  have "count_list (run_prefix E (fst (cuda_probe E)) (VideoCapture E video_path)
          start_time interval m) Release = 0" for m
    by (rule pass_no_release [OF pass_event_run_prefix])
  with detect_Some_cases [OF assms] show ?thesis
    by (auto simp add: count_list_append header_no_release probe_no_release selected_one_release)
qed

theorem release_on_exit_witness:
  "detect_best_face_frame boundary_env ''in.mp4'' ''out.jpg'' 10 2 [] =
     Some (True,
       [LogAnalyzing ''in.mp4'', LogCudaNotAvailable, LogVideoInfo 900 30 30, LogSearching 10 2,
        Seek 300, LogFound 300 10 97 27 20 50,
        ImWrite ''out.jpg'' (Resize boundary_frame 320 320) [(IMWRITE_JPEG_QUALITY, 85)],
        Release, LogSuccess ''out.jpg'']) \<and>
   isOpened (VideoCapture boundary_env ''in.mp4'') \<and>
   count_list
       [LogAnalyzing ''in.mp4'', LogCudaNotAvailable, LogVideoInfo 900 30 30, LogSearching 10 2,
        Seek 300, LogFound 300 10 97 27 20 50,
        ImWrite ''out.jpg'' (Resize boundary_frame 320 320) [(IMWRITE_JPEG_QUALITY, 85)],
        Release, LogSuccess ''out.jpg''] Release = 1"
proof -
  have run: "detect_best_face_frame boundary_env ''in.mp4'' ''out.jpg'' 10 2 [] =
     Some (True,
       [LogAnalyzing ''in.mp4'', LogCudaNotAvailable, LogVideoInfo 900 30 30, LogSearching 10 2,
        Seek 300, LogFound 300 10 97 27 20 50,
        ImWrite ''out.jpg'' (Resize boundary_frame 320 320) [(IMWRITE_JPEG_QUALITY, 85)],
        Release, LogSuccess ''out.jpg''])"
    by (simp add: detect_best_face_frame_def boundary_env_def ex_env_def ex_video_def
      boundary_frame_def two_eyes_def cuda_probe_def scan.simps
      duration_def fps_def total_frames_def py_int_def cap_read_def to_gray_def area_ratio_def
      int32_mul_def frame_area_def size_score_def MIN_FACE_SIZE_def center_dist_def
      position_score_def frontal_score_def MIN_SCORE_def face_too_small_def
      score_high_enough_def total_score_def target_width_def target_height_def)
  have op: "isOpened (VideoCapture boundary_env ''in.mp4'')"
    by (simp add: boundary_env_def ex_env_def ex_video_def)
  from release_on_exit [OF run] op run show ?thesis by simp
qed

text \<open>
  C4 with a release on every path fails where the video cannot be opened: there the
  function returns \<open>False\<close> without a call of \<open>release\<close>.
\<close>

theorem no_release_on_open_failure:
  "\<not> isOpened (VideoCapture unopened_env ''in.mp4'') \<and>
   detect_best_face_frame unopened_env ''in.mp4'' ''out.jpg'' 10 2 [] =
     Some (False, [LogAnalyzing ''in.mp4'', LogCudaNotAvailable, LogOpenError ''in.mp4'']) \<and>
   count_list [LogAnalyzing ''in.mp4'', LogCudaNotAvailable, LogOpenError ''in.mp4''] Release = (0::nat)"
  by (simp add: detect_best_face_frame_def unopened_env_def ex_env_def cuda_probe_def)

text \<open>
  C5: a video of 900 frames at 30 frames per second lasts 30 seconds. With start time 10
  and interval 2 the loop goes on at the timestamps 10, 12, ..., 28 and ends at 30; the
  frames sought are 300, 360, ..., 840, each below 900. If none of the ten sampled frames
  has a qualifying face, the function returns \<open>False\<close> after these ten passes, reporting
  as checked the sampled frames that decoded (all ten when every one decodes), and the
  program exits with code 1.
\<close>

theorem thirty_second_scan:
  assumes opened: "isOpened (VideoCapture E video_path)"
    and count: "CAP_PROP_FRAME_COUNT (VideoCapture E video_path) = 900"
    and rate: "CAP_PROP_FPS (VideoCapture E video_path) = 30"
    and none: "\<forall>k < 10. \<not> frame_qualifies E (fst (cuda_probe E)) (VideoCapture E video_path)
                          (sample_time 10 2 k)"
  shows "duration (VideoCapture E video_path) = 30 \<and>
         map (sample_time 10 2) [0..<10] = [10, 12, 14, 16, 18, 20, 22, 24, 26, 28] \<and>
         map (\<lambda>k. frame_idx_of (VideoCapture E video_path) (sample_time 10 2 k)) [0..<10] =
           [300, 360, 420, 480, 540, 600, 660, 720, 780, 840] \<and>
         list_all (\<lambda>k. in_range (VideoCapture E video_path) (sample_time 10 2 k)) [0..<10] \<and>
         \<not> in_range (VideoCapture E video_path) (sample_time 10 2 10) \<and>
         (\<exists>tr. detect_best_face_frame E video_path output_path 10 2 [] = Some (False, tr) \<and>
               seeks tr = [300, 360, 420, 480, 540, 600, 660, 720, 780, 840] \<and>
               last tr = LogWarnNoFace (checked_upto (VideoCapture E video_path) 10 2 10) \<and>
               checked_upto (VideoCapture E video_path) 10 2 10 \<le> 10 \<and>
               (list_all (\<lambda>k. cap_read (VideoCapture E video_path)
                           (frame_idx_of (VideoCapture E video_path) (sample_time 10 2 k)) \<noteq> None) [0..<10]
                  \<longrightarrow> checked_upto (VideoCapture E video_path) 10 2 10 = 10) \<and>
               (path_exists E video_path \<longrightarrow>
                  main E [prog, video_path, output_path] = Some (1, tr)))"
proof -
  let ?cap = "VideoCapture E video_path" and ?g = "fst (cuda_probe E)"
  have tot: "total_frames ?cap = 900" by (simp add: total_frames_def count py_int_def)
  have fr: "fps ?cap = 30" by (simp add: fps_def rate)
  have dur: "duration ?cap = 30" by (simp add: duration_def tot fr)
  have idx: "frame_idx_of ?cap (sample_time 10 2 k) = 300 + 60 * int k" for k
  proof -
    have "sample_time 10 2 k * 30 = rat_of_int (300 + 60 * int k)"
      by (simp add: sample_time_def algebra_simps)
    then have "frame_idx_of ?cap (sample_time 10 2 k) = py_int (rat_of_int (300 + 60 * int k))"
      by (simp only: frame_idx_of_def fr)
    then show ?thesis by (simp only: py_int_of_int)
  qed
  have ir: "in_range ?cap (sample_time 10 2 k)" if "k < 10" for k
    using that by (simp add: in_range_def dur tot idx) (simp add: sample_time_def)
  have stop: "\<not> in_range ?cap (sample_time 10 2 10)"
    by (simp add: in_range_def dur sample_time_def)
  have upt: "[0..<10] = [0, 1, 2, 3, 4, 5, 6, 7, 8, 9::nat]"
    by (simp add: upt_conv_Cons)
  have times: "map (sample_time 10 2) [0..<10] = [10, 12, 14, 16, 18, 20, 22, 24, 26, 28]"
    by (simp add: upt sample_time_def)
  have idxs: "map (\<lambda>k. frame_idx_of ?cap (sample_time 10 2 k)) [0..<10] =
           [300, 360, 420, 480, 540, 600, 660, 720, 780, 840]"
    by (simp add: idx upt)
  have irs: "list_all (\<lambda>k. in_range ?cap (sample_time 10 2 k)) [0..<10]"
    by (simp add: list_all_iff ir)
  let ?tr = "header_events E video_path 10 2 @ run_prefix E ?g ?cap 10 2 10 @
               [Release, LogWarnNoFace (checked_upto ?cap 10 2 10)]"
  from none ir have "\<forall>k < 10. in_range ?cap (sample_time 10 2 k) \<and>
      \<not> frame_qualifies E ?g ?cap (sample_time 10 2 k)" by simp
  from scan_exhausted [OF this stop, of output_path 0 "[] @ header_events E video_path 10 2"]
  have run: "detect_best_face_frame E video_path output_path 10 2 [] = Some (False, ?tr)"
    by (simp add: detect_opened [OF opened])
  have sk: "seeks ?tr = [300, 360, 420, 480, 540, 600, 660, 720, 780, 840]"
    by (simp add: seeks_append seeks_header seeks_run_prefix idxs)
       (simp add: seeks_def List.map_filter_def)
  have lst: "last ?tr = LogWarnNoFace (checked_upto ?cap 10 2 10)" by simp
  have all: "list_all (\<lambda>k. cap_read ?cap (frame_idx_of ?cap (sample_time 10 2 k)) \<noteq> None) [0..<10]
                  \<longrightarrow> checked_upto ?cap 10 2 10 = 10"
    using checked_upto_all [of 10 ?cap 10 2] by (simp add: list_all_iff)
  have mn: "path_exists E video_path \<longrightarrow> main E [prog, video_path, output_path] = Some (1, ?tr)"
    by (simp add: main_def run)
  from run sk lst checked_upto_le [of ?cap 10 2 10] all mn
  have "\<exists>tr. detect_best_face_frame E video_path output_path 10 2 [] = Some (False, tr) \<and>
               seeks tr = [300, 360, 420, 480, 540, 600, 660, 720, 780, 840] \<and>
               last tr = LogWarnNoFace (checked_upto ?cap 10 2 10) \<and>
               checked_upto ?cap 10 2 10 \<le> 10 \<and>
               (list_all (\<lambda>k. cap_read ?cap (frame_idx_of ?cap (sample_time 10 2 k)) \<noteq> None) [0..<10]
                  \<longrightarrow> checked_upto ?cap 10 2 10 = 10) \<and>
               (path_exists E video_path \<longrightarrow>
                  main E [prog, video_path, output_path] = Some (1, tr))"
    by blast
  with dur times idxs irs stop show ?thesis by blast
qed

theorem thirty_second_scan_witness:
  "duration (VideoCapture no_face_env ''in.mp4'') = 30 \<and>
   detect_best_face_frame no_face_env ''in.mp4'' ''out.jpg'' 10 2 [] =
     Some (False,
       [LogAnalyzing ''in.mp4'', LogCudaNotAvailable, LogVideoInfo 900 30 30, LogSearching 10 2,
        Seek 300, LogNoFaces 300 10, Seek 360, LogNoFaces 360 12, Seek 420, LogNoFaces 420 14,
        Seek 480, LogNoFaces 480 16, Seek 540, LogNoFaces 540 18, Seek 600, LogNoFaces 600 20,
        Seek 660, LogNoFaces 660 22, Seek 720, LogNoFaces 720 24, Seek 780, LogNoFaces 780 26,
        Seek 840, LogNoFaces 840 28, Release, LogWarnNoFace 10]) \<and>
   seeks
      ([LogAnalyzing ''in.mp4'', LogCudaNotAvailable, LogVideoInfo 900 30 30, LogSearching 10 2,
        Seek 300, LogNoFaces 300 10, Seek 360, LogNoFaces 360 12, Seek 420, LogNoFaces 420 14,
        Seek 480, LogNoFaces 480 16, Seek 540, LogNoFaces 540 18, Seek 600, LogNoFaces 600 20,
        Seek 660, LogNoFaces 660 22, Seek 720, LogNoFaces 720 24, Seek 780, LogNoFaces 780 26,
        Seek 840, LogNoFaces 840 28, Release, LogWarnNoFace 10] :: nat event list) =
     [300, 360, 420, 480, 540, 600, 660, 720, 780, 840] \<and>
   checked_upto (VideoCapture no_face_env ''in.mp4'') 10 2 10 = 10 \<and>
   main no_face_env [''face_detect_thumbnail.py'', ''in.mp4'', ''out.jpg''] =
     Some (1,
       [LogAnalyzing ''in.mp4'', LogCudaNotAvailable, LogVideoInfo 900 30 30, LogSearching 10 2,
        Seek 300, LogNoFaces 300 10, Seek 360, LogNoFaces 360 12, Seek 420, LogNoFaces 420 14,
        Seek 480, LogNoFaces 480 16, Seek 540, LogNoFaces 540 18, Seek 600, LogNoFaces 600 20,
        Seek 660, LogNoFaces 660 22, Seek 720, LogNoFaces 720 24, Seek 780, LogNoFaces 780 26,
        Seek 840, LogNoFaces 840 28, Release, LogWarnNoFace 10])"
proof -
  let ?cap = "VideoCapture no_face_env ''in.mp4''"
  have opened: "isOpened ?cap" and count: "CAP_PROP_FRAME_COUNT ?cap = 900"
    and rate: "CAP_PROP_FPS ?cap = 30" and ex: "path_exists no_face_env ''in.mp4''"
    by (simp_all add: no_face_env_def ex_env_def ex_video_def)
  have none: "\<forall>k < 10. \<not> frame_qualifies no_face_env (fst (cuda_probe no_face_env)) ?cap
      (sample_time 10 2 k)"
    by (simp add: frame_qualifies_def selected_face_def no_face_env_def ex_env_def
        split: option.split)
  have dec: "cap_read ?cap i \<noteq> None" for i
    by (simp add: cap_read_def no_face_env_def ex_env_def ex_video_def plain_frame_def)
  have all: "list_all (\<lambda>k. cap_read ?cap (frame_idx_of ?cap (sample_time 10 2 k)) \<noteq> None) [0..<10]"
    by (simp add: list_all_iff dec)
  from thirty_second_scan [OF opened count rate none, of "''out.jpg''" "''face_detect_thumbnail.py''"]
  obtain tr where dur: "duration ?cap = 30"
    and run: "detect_best_face_frame no_face_env ''in.mp4'' ''out.jpg'' 10 2 [] = Some (False, tr)"
    and sk: "seeks tr = [300, 360, 420, 480, 540, 600, 660, 720, 780, 840]"
    and ch: "list_all (\<lambda>k. cap_read ?cap (frame_idx_of ?cap (sample_time 10 2 k)) \<noteq> None) [0..<10]
               \<longrightarrow> checked_upto ?cap 10 2 10 = 10"
    and mn: "path_exists no_face_env ''in.mp4'' \<longrightarrow>
               main no_face_env [''face_detect_thumbnail.py'', ''in.mp4'', ''out.jpg''] = Some (1, tr)"
    by blast
  from run no_face_run have tr: "tr =
       [LogAnalyzing ''in.mp4'', LogCudaNotAvailable, LogVideoInfo 900 30 30, LogSearching 10 2,
        Seek 300, LogNoFaces 300 10, Seek 360, LogNoFaces 360 12, Seek 420, LogNoFaces 420 14,
        Seek 480, LogNoFaces 480 16, Seek 540, LogNoFaces 540 18, Seek 600, LogNoFaces 600 20,
        Seek 660, LogNoFaces 660 22, Seek 720, LogNoFaces 720 24, Seek 780, LogNoFaces 780 26,
        Seek 840, LogNoFaces 840 28, Release, LogWarnNoFace 10]" by simp
  from dur run sk ch [rule_format, OF all] mn [rule_format, OF ex]
  show ?thesis unfolding tr by blast
qed


text \<open>
  C7: a larger area ratio never gives a smaller size score or total score, a larger centre
  distance never gives a larger position score, and the position score is never negative.
\<close>

theorem score_monotone:
  "(r1 \<le> r2 \<longrightarrow> size_score r1 \<le> size_score r2 \<and> total_score r1 d \<le> total_score r2 d) \<and>
   (d1 \<le> d2 \<longrightarrow> position_score d2 \<le> position_score d1) \<and>
   0 \<le> position_score d \<and>
   size_score r1 = min 30 (r1 * 300) \<and>
   position_score d = max 0 (20 * (1 - d * 2)) \<and>
   total_score r1 d = size_score r1 + position_score d + 50"
  by (auto simp add: size_score_def total_score_def position_score_def frontal_score_def)

theorem score_monotone_witness:
  "size_score (1/20) \<le> size_score (1/10) \<and> total_score (1/20) (1/4) \<le> total_score (1/10) (1/4) \<and>
   position_score (1/2) \<le> position_score (1/4) \<and> 0 \<le> position_score (1/4) \<and>
   size_score (1/20) = 15 \<and> size_score (1/10) = 30 \<and>
   position_score (1/2) = 0 \<and> position_score (1/4) = 10"
  using score_monotone [of "1/20" "1/10" "1/4" "1/4" "1/2"]
  by (simp add: size_score_def position_score_def)



text \<open>
  C9: the duration is \<open>total_frames / fps\<close> for a positive frame rate and 0 otherwise. For
  a video that reports a frame rate of 0 (or less), with a start time that is not
  negative, the function returns \<open>False\<close> without seeking a frame or writing an image;
  when the video opened, the loop condition fails at once and the count of checked
  frames is 0.
\<close>

theorem zero_fps_returns_false:
  "(0 < fps cap \<longrightarrow> duration cap = of_int (total_frames cap) / fps cap) \<and>
   (fps cap \<le> 0 \<longrightarrow> duration cap = 0) \<and>
   (isOpened (VideoCapture E video_path) \<and> fps (VideoCapture E video_path) \<le> 0 \<and> 0 \<le> start_time \<longrightarrow>
      \<not> in_range (VideoCapture E video_path) start_time \<and>
      detect_best_face_frame E video_path output_path start_time interval tr =
        Some (False, tr @ header_events E video_path start_time interval @
                [Release, LogWarnNoFace 0])) \<and>
   (fps (VideoCapture E video_path) \<le> 0 \<and> 0 \<le> start_time \<longrightarrow>
      (\<exists>ev. detect_best_face_frame E video_path output_path start_time interval tr =
              Some (False, tr @ ev) \<and> seeks ev = [] \<and> \<not> list_ex is_write ev))"
proof (intro conjI impI)
  show "0 < fps cap \<Longrightarrow> duration cap = of_int (total_frames cap) / fps cap"
    by (simp add: duration_def)
  show "fps cap \<le> 0 \<Longrightarrow> duration cap = 0"
    by (simp add: duration_def)
next
  assume a: "fps (VideoCapture E video_path) \<le> 0 \<and> 0 \<le> start_time"
  then have nr: "\<not> in_range (VideoCapture E video_path) start_time"
    by (simp add: in_range_def duration_def)
  show "\<exists>ev. detect_best_face_frame E video_path output_path start_time interval tr =
              Some (False, tr @ ev) \<and> seeks ev = [] \<and> \<not> list_ex is_write ev"
  proof (cases "isOpened (VideoCapture E video_path)")
    case True
    have "seeks (header_events E video_path start_time interval @ [Release, LogWarnNoFace 0]) = []"
      by (simp add: seeks_append seeks_header) (simp add: seeks_def List.map_filter_def)
    moreover have "\<not> list_ex is_write
        (header_events E video_path start_time interval @ [Release, LogWarnNoFace 0])"
      by (simp add: header_not_write)
    moreover have "detect_best_face_frame E video_path output_path start_time interval tr =
        Some (False, tr @ header_events E video_path start_time interval @
                [Release, LogWarnNoFace 0])"
      using True by (simp add: detect_opened scan_stop [OF nr])
    ultimately show ?thesis by blast
  next
    case False
    have "seeks ([LogAnalyzing video_path] @ snd (cuda_probe E) @ [LogOpenError video_path]) = []"
      by (simp only: seeks_append seeks_probe) (simp add: seeks_def List.map_filter_def)
    moreover have "\<not> list_ex is_write
        ([LogAnalyzing video_path] @ snd (cuda_probe E) @ [LogOpenError video_path])"
      by (simp add: probe_not_write)
    ultimately show ?thesis
      using detect_not_opened [OF False, of output_path start_time interval tr] by blast
  qed
next
  assume a: "isOpened (VideoCapture E video_path) \<and> fps (VideoCapture E video_path) \<le> 0 \<and>
    0 \<le> start_time"
  then show nr: "\<not> in_range (VideoCapture E video_path) start_time"
    by (simp add: in_range_def duration_def)
  from a show "detect_best_face_frame E video_path output_path start_time interval tr =
        Some (False, tr @ header_events E video_path start_time interval @
                [Release, LogWarnNoFace 0])"
    by (simp add: detect_opened scan_stop [OF nr])
qed

theorem zero_fps_returns_false_witness:
  "duration (ex_video 900 30 (\<lambda>i. Some boundary_frame)) = 30 \<and>
   duration (ex_video 900 0 (\<lambda>i. Some boundary_frame)) = 0 \<and>
   detect_best_face_frame zero_fps_env ''in.mp4'' ''out.jpg'' 10 2 [] =
     Some (False, [LogAnalyzing ''in.mp4'', LogCudaNotAvailable, LogVideoInfo 900 0 0,
                   LogSearching 10 2, Release, LogWarnNoFace 0])"
  using zero_fps_returns_false [of "ex_video 900 30 (\<lambda>i. Some boundary_frame)" zero_fps_env
      "''in.mp4''" 10 "''out.jpg''" 2 "[]"]
    zero_fps_returns_false [of "ex_video 900 0 (\<lambda>i. Some boundary_frame)" zero_fps_env
      "''in.mp4''" 10 "''out.jpg''" 2 "[]"]
  by (simp add: zero_fps_env_def ex_env_def ex_video_def fps_def total_frames_def py_int_def
      header_events_def cuda_probe_def duration_def)



end
